theory Spec2Isabelle
  imports Complex_Main
begin

section \<open>Data model (main/models.py)\<close>

text \<open>
  Timestamps are \<open>datetime\<close> values; they are modelled as the number of microseconds
  since the epoch, and \<open>timedelta(minutes=m)\<close> as a number of microseconds. A
  \<open>datetime\<close> object is always truthy in Python, so a nullable timestamp field is
  truthy exactly when it is not \<open>None\<close>.
\<close>

type_synonym time = int

definition timedelta_minutes :: "int \<Rightarrow> time" where
  "timedelta_minutes m = m * 60000000"

text \<open>\<open>Beat.STATUS_CHOICES\<close> and \<open>Transaction.STATUS_CHOICES\<close>.\<close>

datatype beat_status = Available | Reserved | Sold | Downloaded

datatype transaction_status = Pending | Completed | Failed | Cancelled

text \<open>
  A \<open>Beat\<close> instance. \<open>price\<close> is a two-decimal \<open>DecimalField\<close>, kept in cents.
  The two counters are \<open>PositiveIntegerField\<close>s: Python's unbounded non-negative
  integers. The descriptive columns (description, duration, bpm, the two bookkeeping
  timestamps) play no part in any method and are left out.
\<close>

record beat =
  pk :: nat
  title :: string
  album :: nat
  audio_file :: string
  price :: int
  status :: beat_status
  reserved_until :: "time option"
  download_count :: nat
  max_downloads :: nat
  is_favorite :: bool

text \<open>
  A \<open>Transaction\<close> instance. \<open>t_pk\<close> is \<open>None\<close> until the first insert.
  \<open>t_beat_id\<close> is the foreign key column; \<open>t_beat\<close> is the related instance cached on
  the object (set when the object is built with \<open>beat=...\<close> or after the first access
  of \<open>self.beat\<close>), \<open>None\<close> when the related row has not been fetched yet.
\<close>

record transaction =
  t_pk :: "nat option"
  t_buyer :: nat
  t_beat_id :: nat
  t_beat :: "beat option"
  t_amount :: int
  t_status :: transaction_status
  t_payment_method :: string
  t_payment_reference :: string
  t_completed_at :: "time option"

text \<open>A \<open>DownloadHistory\<close> row; \<open>downloaded_at\<close> is \<open>auto_now_add\<close>.\<close>

record downloadhistory =
  h_beat :: nat
  h_buyer :: nat
  downloaded_at :: time

text \<open>
  The database: the \<open>Beat\<close> table keyed by primary key, the \<open>Transaction\<close> table and
  the \<open>DownloadHistory\<close> table in insertion order. Every \<open>save()\<close> is committed when
  it returns (Django's autocommit default; the settings module is not part of the
  sources), so a request that raises later keeps the rows it has already written.
\<close>

record db =
  beats :: "nat \<rightharpoonup> beat"
  transactions :: "transaction list"
  histories :: "downloadhistory list"

text \<open>Exceptions that escape a view, and the responses a view produces.\<close>

datatype error = TypeError | AttributeError | ValueError | DoesNotExist | NoReverseMatch

datatype target = Index | Detail nat

datatype response =
    FileResponse string string
  | HttpResponseForbidden string
  | Http404
  | HttpResponseRedirect target string
  | ServerError error

section \<open>Beat methods\<close>

text \<open>\<open>Model.save()\<close> of a beat that has a primary key: every column of the row is
  overwritten with the instance's attributes.\<close>

definition Beat_save :: "beat \<Rightarrow> db \<Rightarrow> db" where
  "Beat_save self d = d\<lparr>beats := (beats d)(pk self \<mapsto> self)\<rparr>"

text \<open>
  \<open>mark_as_downloaded\<close> (models.py:71). The assignment \<open>self.is_available = False\<close>
  only shadows the method of the same name on this one in-memory instance; it is no
  column and is not persisted.
\<close>

definition mark_as_downloaded :: "beat \<Rightarrow> db \<Rightarrow> beat \<times> db" where
  "mark_as_downloaded self d =
     (let self1 = self\<lparr>download_count := download_count self + 1\<rparr>;
          self2 = (if download_count self1 \<ge> max_downloads self1
                   then self1\<lparr>status := Downloaded\<rparr> else self1)
      in (self2, Beat_save self2 d))"

text \<open>\<open>is_downloadable\<close> (models.py:81).\<close>

definition is_downloadable :: "beat \<Rightarrow> bool" where
  "is_downloadable self =
     (status self \<in> {Available, Sold} \<and> download_count self < max_downloads self)"

text \<open>\<open>reserve_for_purchase\<close> (models.py:85): no test of the current state, no error.\<close>

definition reserve_for_purchase :: "time \<Rightarrow> beat \<Rightarrow> db \<Rightarrow> beat \<times> db" where
  "reserve_for_purchase now self d =
     (let self1 = self\<lparr>status := Reserved\<rparr>;
          self2 = self1\<lparr>reserved_until := Some (now + timedelta_minutes 5)\<rparr>
      in (self2, Beat_save self2 d))"

text \<open>\<open>complete_purchase\<close> (models.py:91).\<close>

definition complete_purchase :: "beat \<Rightarrow> db \<Rightarrow> beat \<times> db" where
  "complete_purchase self d =
     (let self1 = self\<lparr>status := Sold\<rparr>;
          self2 = self1\<lparr>reserved_until := None\<rparr>
      in (self2, Beat_save self2 d))"

text \<open>\<open>release_reservation\<close> (models.py:97): the instance is saved only when the
  guard holds.\<close>

definition release_reservation :: "time \<Rightarrow> beat \<Rightarrow> db \<Rightarrow> beat \<times> db" where
  "release_reservation now self d =
     (case reserved_until self of
        None \<Rightarrow> (self, d)
      | Some u \<Rightarrow>
          if status self = Reserved \<and> u < now then
            (let self1 = self\<lparr>status := Available\<rparr>;
                 self2 = self1\<lparr>reserved_until := None\<rparr>
             in (self2, Beat_save self2 d))
          else (self, d))"

text \<open>\<open>is_available\<close> (models.py:104): the answer, with the instance and the database
  as the expiry sweep left them.\<close>

definition is_available :: "time \<Rightarrow> beat \<Rightarrow> db \<Rightarrow> bool \<times> beat \<times> db" where
  "is_available now self d =
     (let (self1, d1) = release_reservation now self d
      in (status self1 = Available, self1, d1))"

section \<open>Transaction ledger\<close>

text \<open>
  \<open>super().save()\<close> of a transaction: an instance without primary key is inserted
  under a fresh key; an instance with a key replaces the row of that key, and is
  inserted when no such row exists. A row holds the columns only, not the cached
  related instance.
\<close>

definition fresh_pk :: "transaction list \<Rightarrow> nat" where
  "fresh_pk rows = Suc (fold max (map (\<lambda>r. case t_pk r of None \<Rightarrow> 0 | Some k \<Rightarrow> k) rows) 0)"

definition Model_save :: "transaction \<Rightarrow> db \<Rightarrow> transaction \<times> db" where
  "Model_save self d =
     (case t_pk self of
        None \<Rightarrow>
          (let self1 = self\<lparr>t_pk := Some (fresh_pk (transactions d))\<rparr>
           in (self1, d\<lparr>transactions := transactions d @ [self1\<lparr>t_beat := None\<rparr>]\<rparr>))
      | Some k \<Rightarrow>
          if filter (\<lambda>r. t_pk r = Some k) (transactions d) = [] then
            (self, d\<lparr>transactions := transactions d @ [self\<lparr>t_beat := None\<rparr>]\<rparr>)
          else
            (self, d\<lparr>transactions :=
               map (\<lambda>r. if t_pk r = Some k then self\<lparr>t_beat := None\<rparr> else r) (transactions d)\<rparr>))"

text \<open>The attribute \<open>self.beat\<close>: the cached instance, else the row of the foreign
  key, fetched now.\<close>

definition transaction_beat :: "transaction \<Rightarrow> db \<Rightarrow> error + beat" where
  "transaction_beat self d =
     (case t_beat self of
        Some b \<Rightarrow> Inr b
      | None \<Rightarrow> (case beats d (t_beat_id self) of None \<Rightarrow> Inl DoesNotExist | Some b \<Rightarrow> Inr b))"

text \<open>\<open>Transaction.save\<close> (models.py:172).\<close>

definition Transaction_save :: "time \<Rightarrow> transaction \<Rightarrow> db \<Rightarrow> error + (transaction \<times> db)" where
  "Transaction_save now self d =
     (if t_status self = Completed \<and> t_completed_at self = None then
        (case transaction_beat self d of
           Inl e \<Rightarrow> Inl e
         | Inr b \<Rightarrow>
             (let self1 = self\<lparr>t_completed_at := Some now\<rparr>;
                  (b1, d1) = complete_purchase b d
              in Inr (Model_save (self1\<lparr>t_beat := Some b1\<rparr>) d1)))
      else if t_status self \<in> {Failed, Cancelled} then
        (case transaction_beat self d of
           Inl e \<Rightarrow> Inl e
         | Inr b \<Rightarrow>
             (let (b1, d1) = release_reservation now b d
              in Inr (Model_save (self\<lparr>t_beat := Some b1\<rparr>) d1)))
      else Inr (Model_save self d))"

text \<open>\<open>Transaction.objects.create(buyer=..., beat=..., amount=..., status=...)\<close> as
  views.py:164 calls it: the other columns take their defaults, then \<open>save\<close> runs.\<close>

definition Transaction_objects_create ::
  "time \<Rightarrow> nat \<Rightarrow> beat \<Rightarrow> int \<Rightarrow> transaction_status \<Rightarrow> db \<Rightarrow> error + (transaction \<times> db)" where
  "Transaction_objects_create now buyer b amount st d =
     Transaction_save now
       \<lparr>t_pk = None, t_buyer = buyer, t_beat_id = pk b, t_beat = Some b, t_amount = amount,
        t_status = st, t_payment_method = [], t_payment_reference = [],
        t_completed_at = None\<rparr> d"

section \<open>Revenue aggregation\<close>

text \<open>
  \<open>Sum\<close> and \<open>Avg\<close> over a queryset are \<open>None\<close> on the empty set. The quotient of
  \<open>Avg\<close> is exact here; the rounding of the database backend is not modelled.
  \<open>x or 0\<close> is \<open>0\<close> when \<open>x\<close> is \<open>None\<close> or zero.
\<close>

definition Sum :: "int list \<Rightarrow> int option" where
  "Sum xs = (if xs = [] then None else Some (sum_list xs))"

definition Avg :: "int list \<Rightarrow> rat option" where
  "Avg xs = (if xs = [] then None else Some (of_int (sum_list xs) / of_nat (length xs)))"

definition or_0 :: "'a::zero option \<Rightarrow> 'a" where
  "or_0 x = (case x of None \<Rightarrow> 0 | Some v \<Rightarrow> if v = 0 then 0 else v)"

definition completed_transactions :: "db \<Rightarrow> transaction list" where
  "completed_transactions d = filter (\<lambda>t. t_status t = Completed) (transactions d)"

definition get_total_revenue :: "db \<Rightarrow> int" where
  "get_total_revenue d = or_0 (Sum (map t_amount (completed_transactions d)))"

definition get_beats_sold_count :: "db \<Rightarrow> nat" where
  "get_beats_sold_count d = length (completed_transactions d)"

text \<open>The calendar date of a timestamp (\<open>completed_at__date\<close>, \<open>timezone.now().date()\<close>),
  as a day number in the one time zone of the deployment.\<close>

definition date :: "time \<Rightarrow> int" where
  "date t = t div 86400000000"

definition completed_today :: "time \<Rightarrow> db \<Rightarrow> transaction list" where
  "completed_today now d =
     filter (\<lambda>t. case t_completed_at t of None \<Rightarrow> False | Some c \<Rightarrow> date c = date now)
       (completed_transactions d)"

record revenue_statistics =
  total_revenue :: int
  total_beats_sold :: nat
  average_sale_value :: rat
  today_revenue :: int
  today_sales :: nat

text \<open>\<open>get_revenue_statistics\<close> (models.py:254).\<close>

definition get_revenue_statistics :: "time \<Rightarrow> db \<Rightarrow> revenue_statistics" where
  "get_revenue_statistics now d =
     \<lparr>total_revenue = or_0 (Sum (map t_amount (completed_transactions d))),
      total_beats_sold = length (completed_transactions d),
      average_sale_value = or_0 (Avg (map t_amount (completed_transactions d))),
      today_revenue = or_0 (Sum (map t_amount (completed_today now d))),
      today_sales = length (completed_today now d)\<rparr>"

section \<open>Download history and its receivers\<close>

text \<open>
  \<open>DownloadHistory\<close> declares the fields \<open>beat\<close>, \<open>buyer\<close> and \<open>downloaded_at\<close> only,
  while views.py:64 builds an instance with a further keyword \<open>download_count\<close>.
  Django's \<open>Model.__init__\<close> raises \<open>TypeError\<close> for a keyword that names neither a
  field nor a property of the model: that is \<open>RejectUnknown\<close>. The receiver at
  models.py:341 reads \<open>instance.download_count\<close> as if the keyword had become an
  attribute of the instance: that reading is \<open>KeepUnknown\<close>. The model takes the
  policy as a parameter, so that each statement says under which reading it holds.
\<close>

datatype kwargs_policy = RejectUnknown | KeepUnknown

text \<open>\<open>update_beat_download_count\<close> (models.py:296), on the instance
  \<open>instance.beat\<close>.\<close>

definition update_beat_download_count :: "bool \<Rightarrow> beat \<Rightarrow> db \<Rightarrow> beat \<times> db" where
  "update_beat_download_count created instance_beat d =
     (if created then
        (let b1 = instance_beat\<lparr>download_count := download_count instance_beat + 1\<rparr>;
             b2 = (if download_count b1 \<ge> max_downloads b1
                   then b1\<lparr>status := Downloaded\<rparr> else b1)
         in (b2, Beat_save b2 d))
      else (instance_beat, d))"

text \<open>
  \<open>auto_increment_download_count\<close> (models.py:341), on the attribute
  \<open>download_count\<close> of the history instance itself (\<open>None\<close>: the instance has no
  such attribute, and reading it raises). The attribute is no column; nothing is saved.
\<close>

definition auto_increment_download_count :: "bool \<Rightarrow> nat option \<Rightarrow> error + nat option" where
  "auto_increment_download_count created attr =
     (if created then
        (case attr of None \<Rightarrow> Inl AttributeError | Some c \<Rightarrow> Inr (Some (c + 1)))
      else Inr attr)"

text \<open>
  \<open>DownloadHistory.objects.create(buyer=..., beat=..., [download_count=...])\<close>: the
  constructor, the insert, then the two \<open>post_save\<close> receivers of the sender in the
  order of their registration, with \<open>created = True\<close>. The result is the exception
  raised (if any), the beat instance passed in (the receivers mutate it) and the
  database.
\<close>

definition DownloadHistory_objects_create ::
  "kwargs_policy \<Rightarrow> time \<Rightarrow> nat \<Rightarrow> beat \<Rightarrow> nat option \<Rightarrow> db \<Rightarrow> error option \<times> beat \<times> db" where
  "DownloadHistory_objects_create pol now buyer b kw d =
     (if kw \<noteq> None \<and> pol = RejectUnknown then (Some TypeError, b, d)
      else
        (let d1 = d\<lparr>histories := histories d @
                     [\<lparr>h_beat = pk b, h_buyer = buyer, downloaded_at = now\<rparr>]\<rparr>;
             (b1, d2) = update_beat_download_count True b d1
         in (case auto_increment_download_count True kw of
               Inl e \<Rightarrow> (Some e, b1, d2)
             | Inr _ \<Rightarrow> (None, b1, d2))))"

section \<open>Views (main/views.py)\<close>

text \<open>
  What a view reads of the request: the buyer profile of \<open>request.user\<close> (\<open>None\<close>:
  the user has none, and the attribute access raises), the query parameters
  \<open>status\<close> and \<open>tx_ref\<close>, and the session entry \<open>current_beat_id\<close>.
\<close>

record request =
  buyer_profile :: "nat option"
  GET_status :: "string option"
  GET_tx_ref :: "string option"
  session_current_beat_id :: "nat option"

definition beat_id_global :: nat where
  "beat_id_global = 0"

definition has_purchased :: "nat \<Rightarrow> beat \<Rightarrow> db \<Rightarrow> bool" where
  "has_purchased buyer b d =
     (filter (\<lambda>t. t_buyer t = buyer \<and> t_beat_id t = pk b \<and> t_status t = Completed)
        (transactions d) \<noteq> [])"

text \<open>
  \<open>download_beat\<close> (views.py:41). \<open>exists\<close> is \<open>os.path.exists\<close> on the path of the
  stored file; \<open>audio_file.path\<close> raises \<open>ValueError\<close> when the field holds no file
  name. A buyer profile is a model instance, hence truthy, so the alternative of
  \<open>or "josh"\<close> is never taken. Opening a file that exists is taken to succeed.
\<close>

definition download_beat ::
  "kwargs_policy \<Rightarrow> (string \<Rightarrow> bool) \<Rightarrow> time \<Rightarrow> request \<Rightarrow> nat \<Rightarrow> db \<Rightarrow> response \<times> db" where
  "download_beat pol exists now req beat_id d =
     (case beats d beat_id of
        None \<Rightarrow> (Http404, d)
      | Some b \<Rightarrow>
          (case buyer_profile req of
             None \<Rightarrow> (ServerError AttributeError, d)
           | Some buyer \<Rightarrow>
               if \<not> has_purchased buyer b d then
                 (HttpResponseForbidden ''You have not purchased this beat.'', d)
               else if audio_file b = [] then (ServerError ValueError, d)
               else if exists (audio_file b) then
                 (case DownloadHistory_objects_create pol now buyer b (Some (download_count b)) d of
                    (Some e, b1, d1) \<Rightarrow> (ServerError e, d1)
                  | (None, b1, d1) \<Rightarrow>
                      (let (b2, d2) = mark_as_downloaded b1 d1
                       in (FileResponse (audio_file b) (title b @ ''.mp3''), d2)))
               else (HttpResponseForbidden ''File does not exist.'', d)))"

text \<open>
  \<open>payment_response\<close> (views.py:138). The result is the response, the session entry
  as the view leaves it, and the database. \<open>not beat_id\<close> holds for \<open>None\<close> and for
  \<open>0\<close>. A beat always has an album (the foreign key is not nullable) and a model
  instance is truthy, so \<open>if beat.album\<close> takes its first branch. In the successful
  branch the value of \<open>download_beat\<close> is handed to \<open>redirect\<close>, whose result is
  dropped: \<open>redirect\<close> of a response object raises \<open>NoReverseMatch\<close> (and a view that
  falls off its end has returned no response either), so the client never receives
  what \<open>download_beat\<close> returned; an exception of \<open>download_beat\<close> itself propagates.
\<close>

definition payment_response ::
  "kwargs_policy \<Rightarrow> (string \<Rightarrow> bool) \<Rightarrow> time \<Rightarrow> request \<Rightarrow> db \<Rightarrow> response \<times> nat option \<times> db" where
  "payment_response pol exists now req d =
     (case session_current_beat_id req of
        None \<Rightarrow> (HttpResponseRedirect Index ''Invalid payment session. Please try again.'', None, d)
      | Some beat_id \<Rightarrow>
          if beat_id = 0 then
            (HttpResponseRedirect Index ''Invalid payment session. Please try again.'',
             Some beat_id, d)
          else
            (case beats d beat_id of
               None \<Rightarrow> (Http404, Some beat_id, d)
             | Some b \<Rightarrow>
                 if GET_status req = Some ''successful'' then
                   (case buyer_profile req of
                      None \<Rightarrow> (ServerError AttributeError, None, d)
                    | Some buyer \<Rightarrow>
                        (case Transaction_objects_create now buyer b (price b) Completed d of
                           Inl e \<Rightarrow> (ServerError e, None, d)
                         | Inr (tx, d1) \<Rightarrow>
                             (case download_beat pol exists now req beat_id_global d1 of
                                (Http404, d2) \<Rightarrow> (Http404, None, d2)
                              | (ServerError e, d2) \<Rightarrow> (ServerError e, None, d2)
                              | (start_download, d2) \<Rightarrow> (ServerError NoReverseMatch, None, d2))))
                 else if GET_status req = Some ''cancelled'' then
                   (HttpResponseRedirect (Detail (album b))
                      ''Payment was cancelled. Please try again.'', None, d)
                 else
                   (HttpResponseRedirect (Detail (album b))
                      ''Payment failed. Please try again.'', None, d)))"

section \<open>Concrete states\<close>

text \<open>A beat as the catalogue creates it, and a database that holds it.\<close>

definition example_beat :: beat where
  "example_beat =
     \<lparr>pk = 1, title = ''Intro'', album = 1, audio_file = ''beats/intro.mp3'', price = 2500,
      status = Available, reserved_until = None, download_count = 0, max_downloads = 1,
      is_favorite = False\<rparr>"

definition example_db :: db where
  "example_db = \<lparr>beats = [1 \<mapsto> example_beat], transactions = [], histories = []\<rparr>"

text \<open>A ledger with a pending and a failed transaction, and a transaction in status
  completed that has not been saved yet.\<close>

definition pending_transaction :: transaction where
  "pending_transaction =
     \<lparr>t_pk = Some 1, t_buyer = 7, t_beat_id = 1, t_beat = None, t_amount = 2500,
      t_status = Pending, t_payment_method = ''stripe'', t_payment_reference = [],
      t_completed_at = None\<rparr>"

definition ledger_db :: db where
  "ledger_db =
     \<lparr>beats = [1 \<mapsto> example_beat],
      transactions = [pending_transaction, pending_transaction\<lparr>t_pk := Some 2, t_status := Failed\<rparr>],
      histories = []\<rparr>"

definition completed_transaction :: transaction where
  "completed_transaction =
     \<lparr>t_pk = None, t_buyer = 7, t_beat_id = 1, t_beat = None, t_amount = 2500,
      t_status = Completed, t_payment_method = ''stripe'', t_payment_reference = [],
      t_completed_at = None\<rparr>"

text \<open>A beat whose quota is used up, and a database that holds it.\<close>

definition downloaded_beat :: beat where
  "downloaded_beat = example_beat\<lparr>status := Downloaded, download_count := 1\<rparr>"

definition downloaded_db :: db where
  "downloaded_db = \<lparr>beats = [1 \<mapsto> downloaded_beat], transactions = [], histories = []\<rparr>"

text \<open>A buyer's request, a file store that holds the audio file and one that has lost
  it; a sold beat that allows three downloads with the ledger entry of its sale; and
  the beat whose quota is used up, with the ledger entry of its sale.\<close>

definition buyer_request :: request where
  "buyer_request =
     \<lparr>buyer_profile = Some 7, GET_status = None, GET_tx_ref = None,
      session_current_beat_id = None\<rparr>"

definition stored :: "string \<Rightarrow> bool" where
  "stored path = (path = ''beats/intro.mp3'')"

definition missing :: "string \<Rightarrow> bool" where
  "missing path = False"

definition sold_transaction :: transaction where
  "sold_transaction = completed_transaction\<lparr>t_pk := Some 1, t_completed_at := Some 5\<rparr>"

definition sold_beat :: beat where
  "sold_beat = example_beat\<lparr>status := Sold, max_downloads := 3\<rparr>"

definition purchased_db :: db where
  "purchased_db =
     \<lparr>beats = [1 \<mapsto> sold_beat], transactions = [sold_transaction], histories = []\<rparr>"

definition exhausted_db :: db where
  "exhausted_db =
     \<lparr>beats = [1 \<mapsto> downloaded_beat], transactions = [sold_transaction],
      histories = [\<lparr>h_beat = 1, h_buyer = 7, downloaded_at = 6\<rparr>]\<rparr>"

text \<open>Callbacks of the payment gateway for the beat of the session, and a database in
  which that beat is reserved and the buyer's transaction is pending.\<close>

definition successful_request :: request where
  "successful_request =
     \<lparr>buyer_profile = Some 7, GET_status = Some ''successful'', GET_tx_ref = Some ''1234567'',
      session_current_beat_id = Some 1\<rparr>"

definition cancelled_request :: request where
  "cancelled_request = successful_request\<lparr>GET_status := Some ''cancelled''\<rparr>"

definition failed_request :: request where
  "failed_request = successful_request\<lparr>GET_status := Some ''failed''\<rparr>"

definition pending_db :: db where
  "pending_db =
     \<lparr>beats = [1 \<mapsto> example_beat\<lparr>status := Reserved, reserved_until := Some 300000000\<rparr>],
      transactions = [pending_transaction], histories = []\<rparr>"

section \<open>Reservation expiry and release\<close>

text \<open>
  Claim C6. Take a beat reserved at time \<open>T\<close>. At any time \<open>t \<le> T + 5min\<close>, release
  and the availability check change neither the instance nor the database: the beat
  stays reserved, with its \<open>reserved_until\<close>, and the check answers no. At any time
  \<open>t > T + 5min\<close> release makes the beat available, clears \<open>reserved_until\<close>, changes
  no other attribute and saves the row; the availability check answers yes and leaves
  the very same instance and database: the instance available with \<open>reserved_until\<close>
  cleared, and the row of the beat stored so. On a beat that is not reserved, release
  changes nothing and the check only reads the status. Both operations are idempotent.
\<close>

theorem reservation_expiry:
  "(t \<le> T + timedelta_minutes 5 \<longrightarrow>
      release_reservation t (fst (reserve_for_purchase T self d)) d'
        = (fst (reserve_for_purchase T self d), d') \<and>
      is_available t (fst (reserve_for_purchase T self d)) d'
        = (False, fst (reserve_for_purchase T self d), d') \<and>
      status (fst (reserve_for_purchase T self d)) = Reserved \<and>
      reserved_until (fst (reserve_for_purchase T self d)) = Some (T + timedelta_minutes 5)) \<and>
   (T + timedelta_minutes 5 < t \<longrightarrow>
      status (fst (release_reservation t (fst (reserve_for_purchase T self d)) d')) = Available \<and>
      reserved_until (fst (release_reservation t (fst (reserve_for_purchase T self d)) d')) = None \<and>
      beats (snd (release_reservation t (fst (reserve_for_purchase T self d)) d')) (pk self)
        = Some (fst (release_reservation t (fst (reserve_for_purchase T self d)) d')) \<and>
      fst (release_reservation t (fst (reserve_for_purchase T self d)) d')
        = self\<lparr>status := Available, reserved_until := None\<rparr> \<and>
      fst (is_available t (fst (reserve_for_purchase T self d)) d') = True \<and>
      status (fst (snd (is_available t (fst (reserve_for_purchase T self d)) d'))) = Available \<and>
      reserved_until (fst (snd (is_available t (fst (reserve_for_purchase T self d)) d'))) = None \<and>
      fst (snd (is_available t (fst (reserve_for_purchase T self d)) d'))
        = self\<lparr>status := Available, reserved_until := None\<rparr> \<and>
      beats (snd (snd (is_available t (fst (reserve_for_purchase T self d)) d'))) (pk self)
        = Some (self\<lparr>status := Available, reserved_until := None\<rparr>) \<and>
      snd (is_available t (fst (reserve_for_purchase T self d)) d')
        = release_reservation t (fst (reserve_for_purchase T self d)) d') \<and>
   (status x \<noteq> Reserved \<longrightarrow>
      release_reservation t x d' = (x, d') \<and>
      is_available t x d' = (status x = Available, x, d')) \<and>
   release_reservation t (fst (release_reservation t x d')) (snd (release_reservation t x d'))
     = release_reservation t x d' \<and>
   is_available t (fst (snd (is_available t x d'))) (snd (snd (is_available t x d')))
     = is_available t x d'"
  by (auto simp add: release_reservation_def is_available_def reserve_for_purchase_def
        Beat_save_def Let_def split: option.splits)

theorem reservation_expiry_witness:
  "release_reservation 300000000 (fst (reserve_for_purchase 0 example_beat example_db)) example_db
     = (fst (reserve_for_purchase 0 example_beat example_db), example_db) \<and>
   is_available 300000000 (fst (reserve_for_purchase 0 example_beat example_db)) example_db
     = (False, fst (reserve_for_purchase 0 example_beat example_db), example_db) \<and>
   status (fst (release_reservation 300000001
      (fst (reserve_for_purchase 0 example_beat example_db)) example_db)) = Available \<and>
   fst (is_available 300000001
      (fst (reserve_for_purchase 0 example_beat example_db)) example_db) = True \<and>
   status (fst (snd (is_available 300000001
      (fst (reserve_for_purchase 0 example_beat example_db)) example_db))) = Available \<and>
   reserved_until (fst (snd (is_available 300000001
      (fst (reserve_for_purchase 0 example_beat example_db)) example_db))) = None \<and>
   beats (snd (snd (is_available 300000001
      (fst (reserve_for_purchase 0 example_beat example_db)) example_db))) (pk example_beat)
     = Some (example_beat\<lparr>status := Available, reserved_until := None\<rparr>) \<and>
   release_reservation 300000001 example_beat example_db = (example_beat, example_db)"
proof -
  have early: "(300000000::int) \<le> 0 + timedelta_minutes 5"
    by (simp add: timedelta_minutes_def)
  have late: "0 + timedelta_minutes 5 < (300000001::int)"
    by (simp add: timedelta_minutes_def)
  have free: "status example_beat \<noteq> Reserved"
    by (simp add: example_beat_def)
  from early late free
    reservation_expiry [of 300000000 0 example_beat example_db example_db example_beat]
    reservation_expiry [of 300000001 0 example_beat example_db example_db example_beat]
  show ?thesis by blast
qed

section \<open>Revenue over an empty result set\<close>

text \<open>
  Claim C10. When the ledger holds no completed transaction, every aggregation is zero:
  the total revenue, the number of beats sold, and in the statistics the total, the
  count, the average sale value, today's revenue and today's count.
\<close>

theorem revenue_of_no_completed_transactions:
  assumes "\<forall>t \<in> set (transactions d). t_status t \<noteq> Completed"
  shows "get_total_revenue d = 0 \<and> get_beats_sold_count d = 0 \<and>
         get_revenue_statistics now d =
           \<lparr>total_revenue = 0, total_beats_sold = 0, average_sale_value = 0,
            today_revenue = 0, today_sales = 0\<rparr>"
proof -
  from assms have "completed_transactions d = []"
    by (simp add: completed_transactions_def filter_empty_conv)
  then show ?thesis
    by (simp add: get_total_revenue_def get_beats_sold_count_def get_revenue_statistics_def
          completed_today_def Sum_def Avg_def or_0_def)
qed

theorem revenue_of_no_completed_transactions_witness:
  "get_total_revenue ledger_db = 0 \<and> get_beats_sold_count ledger_db = 0 \<and>
   total_revenue (get_revenue_statistics 0 ledger_db) = 0 \<and>
   average_sale_value (get_revenue_statistics 0 ledger_db) = 0 \<and>
   today_revenue (get_revenue_statistics 0 ledger_db) = 0 \<and>
   today_sales (get_revenue_statistics 0 ledger_db) = 0"
proof -
  have "\<forall>t \<in> set (transactions ledger_db). t_status t \<noteq> Completed"
    by (simp add: ledger_db_def pending_transaction_def)
  from revenue_of_no_completed_transactions [OF this, of 0]
  show ?thesis by simp
qed

section \<open>Completion of a transaction\<close>

text \<open>The key of an inserted transaction is above every key of the table, so saving a
  saved instance a second time writes the very same row again.\<close>

lemma fold_max_ge: "(m::nat) \<le> fold max xs m"
  by (induction xs arbitrary: m) (auto intro: order_trans [OF max.cobounded2])

lemma fold_max_mem: "x \<in> set xs \<Longrightarrow> (x::nat) \<le> fold max xs m"
proof (induction xs arbitrary: m)
  case Nil then show ?case by simp
next
  case (Cons a xs)
  show ?case
  proof (cases "x = a")
    case True
    have "max a m \<le> fold max xs (max a m)" by (rule fold_max_ge)
    with True show ?thesis by simp
  next
    case False
    with Cons show ?thesis by simp
  qed
qed

lemma fresh_pk_fresh: "r \<in> set rows \<Longrightarrow> t_pk r \<noteq> Some (fresh_pk rows)"
proof
  assume r: "r \<in> set rows" and eq: "t_pk r = Some (fresh_pk rows)"
  from r have "(case t_pk r of None \<Rightarrow> 0 | Some k \<Rightarrow> k)
      \<in> set (map (\<lambda>r. case t_pk r of None \<Rightarrow> 0 | Some k \<Rightarrow> k) rows)" by simp
  from fold_max_mem [OF this, of 0] eq show False
    by (simp add: fresh_pk_def)
qed

lemma Model_save_beats: "beats (snd (Model_save self d)) = beats d"
  by (simp add: Model_save_def Let_def split: option.splits)

lemma Model_save_completed_at: "t_completed_at (fst (Model_save self d)) = t_completed_at self"
  by (simp add: Model_save_def Let_def split: option.splits)

lemma Model_save_status: "t_status (fst (Model_save self d)) = t_status self"
  by (simp add: Model_save_def Let_def split: option.splits)

lemma Model_save_twice:
  "Model_save (fst (Model_save self d)) (snd (Model_save self d)) = Model_save self d"
proof (cases "t_pk self")
  case None
  let ?k = "fresh_pk (transactions d)"
  have "map (\<lambda>r. if t_pk r = Some ?k then self\<lparr>t_pk := Some ?k, t_beat := None\<rparr> else r) (transactions d)
      = transactions d"
    by (rule map_idI) (auto dest: fresh_pk_fresh)
  with None show ?thesis
    by (simp add: Model_save_def Let_def)
next
  case (Some k)
  show ?thesis
  proof (cases "filter (\<lambda>r. t_pk r = Some k) (transactions d) = []")
    case True
    then have "map (\<lambda>r. if t_pk r = Some k then self\<lparr>t_beat := None\<rparr> else r) (transactions d)
      = transactions d"
      by (intro map_idI) (auto simp add: filter_empty_conv)
    with Some True show ?thesis
      by (simp add: Model_save_def Let_def)
  next
    case False
    have "map ((\<lambda>r. if t_pk r = Some k then self\<lparr>t_beat := None\<rparr> else r) \<circ>
               (\<lambda>r. if t_pk r = Some k then self\<lparr>t_beat := None\<rparr> else r)) (transactions d)
        = map (\<lambda>r. if t_pk r = Some k then self\<lparr>t_beat := None\<rparr> else r) (transactions d)"
      by (rule map_cong) (auto simp add: Some)
    moreover have
      "filter (\<lambda>r. t_pk r = Some k)
         (map (\<lambda>r. if t_pk r = Some k then self\<lparr>t_beat := None\<rparr> else r) (transactions d)) \<noteq> []"
    proof -
      from False obtain r where r: "r \<in> set (transactions d)" "t_pk r = Some k"
        by (auto simp add: filter_empty_conv)
      then have "self\<lparr>t_beat := None\<rparr> \<in>
          set (map (\<lambda>r. if t_pk r = Some k then self\<lparr>t_beat := None\<rparr> else r) (transactions d))"
        by force
      moreover have "t_pk (self\<lparr>t_beat := None\<rparr>) = Some k" using Some by simp
      ultimately show ?thesis
        unfolding filter_empty_conv by blast
    qed
    ultimately show ?thesis using Some False
      by (simp add: Model_save_def Let_def)
  qed
qed

text \<open>What the save leaves in the table: the columns of the instance as one row under
  its key, no other row under that key, and every row of another key as it was.\<close>

lemma Model_save_pk: "t_pk (fst (Model_save self d)) \<noteq> None"
  by (simp add: Model_save_def Let_def split: option.splits)

lemma Model_save_row_stored:
  "(fst (Model_save self d))\<lparr>t_beat := None\<rparr> \<in> set (transactions (snd (Model_save self d)))"
proof (cases "t_pk self")
  case None
  then show ?thesis by (simp add: Model_save_def Let_def)
next
  case (Some k)
  show ?thesis
  proof (cases "filter (\<lambda>r. t_pk r = Some k) (transactions d) = []")
    case True
    with Some show ?thesis by (simp add: Model_save_def)
  next
    case False
    then obtain r where "r \<in> set (transactions d)" "t_pk r = Some k"
      by (auto simp add: filter_empty_conv)
    then have "self\<lparr>t_beat := None\<rparr> \<in>
        set (map (\<lambda>r. if t_pk r = Some k then self\<lparr>t_beat := None\<rparr> else r) (transactions d))"
      by force
    with Some False show ?thesis by (simp add: Model_save_def)
  qed
qed

lemma Model_save_row_only:
  assumes "row \<in> set (transactions (snd (Model_save self d)))"
    and "t_pk row = t_pk (fst (Model_save self d))"
  shows "row = (fst (Model_save self d))\<lparr>t_beat := None\<rparr>"
proof (cases "t_pk self")
  case None
  with assms show ?thesis
    by (auto simp add: Model_save_def Let_def dest: fresh_pk_fresh)
next
  case (Some k)
  show ?thesis
  proof (cases "filter (\<lambda>r. t_pk r = Some k) (transactions d) = []")
    case True
    with Some assms show ?thesis
      by (auto simp add: Model_save_def filter_empty_conv)
  next
    case False
    with Some assms show ?thesis
      by (auto simp add: Model_save_def split: if_splits)
  qed
qed

lemma Model_save_other_rows:
  "filter (\<lambda>r. t_pk r \<noteq> t_pk (fst (Model_save self d))) (transactions (snd (Model_save self d)))
     = filter (\<lambda>r. t_pk r \<noteq> t_pk (fst (Model_save self d))) (transactions d)"
proof (cases "t_pk self")
  case None
  then show ?thesis by (simp add: Model_save_def Let_def)
next
  case (Some k)
  show ?thesis
  proof (cases "filter (\<lambda>r. t_pk r = Some k) (transactions d) = []")
    case True
    with Some show ?thesis by (simp add: Model_save_def)
  next
    case False
    have "filter (\<lambda>r. t_pk r \<noteq> Some k)
            (map (\<lambda>r. if t_pk r = Some k then self\<lparr>t_beat := None\<rparr> else r) xs)
          = filter (\<lambda>r. t_pk r \<noteq> Some k) xs" for xs
      using Some by (induction xs) simp_all
    with Some False show ?thesis by (simp add: Model_save_def)
  qed
qed

lemma Model_save_keeps_pk:
  "t_pk self \<noteq> None \<Longrightarrow> t_pk (fst (Model_save self d)) = t_pk self"
  by (auto simp add: Model_save_def Let_def split: option.splits)

text \<open>
  Claim C5. Let a transaction have status completed and a resolvable beat. If
  \<open>completed_at\<close> is not set, \<open>save\<close> sets it to the current time and changes no other
  column; the table then holds the transaction under its key (the key it had, or a new
  one) as a row with status completed and this \<open>completed_at\<close>, no other row under
  that key, and the rows of other keys as before, so that a pending row of the same
  transaction is replaced; the beat is stored with status sold and \<open>reserved_until\<close>
  cleared; and a further save of the resulting instance, at any later time, keeps
  \<open>completed_at\<close> and leaves the whole database as it is. If \<open>completed_at\<close> is
  already set, \<open>save\<close> keeps it, stores the row with it and does not touch the beats.
\<close>

theorem Transaction_save_completed:
  assumes "t_status self = Completed" and "transaction_beat self d = Inr b"
  shows "(t_completed_at self = None \<longrightarrow>
           (\<exists>self' d'. Transaction_save now self d = Inr (self', d') \<and>
              t_status self' = Completed \<and> t_completed_at self' = Some now \<and>
              self' = self\<lparr>t_pk := t_pk self',
                            t_beat := Some (b\<lparr>status := Sold, reserved_until := None\<rparr>),
                            t_completed_at := Some now\<rparr> \<and>
              t_pk self' \<noteq> None \<and> (t_pk self \<noteq> None \<longrightarrow> t_pk self' = t_pk self) \<and>
              self'\<lparr>t_beat := None\<rparr> \<in> set (transactions d') \<and>
              (\<forall>row \<in> set (transactions d'). t_pk row = t_pk self' \<longrightarrow>
                 row = self'\<lparr>t_beat := None\<rparr> \<and>
                 t_status row = Completed \<and> t_completed_at row = Some now) \<and>
              filter (\<lambda>r. t_pk r \<noteq> t_pk self') (transactions d')
                = filter (\<lambda>r. t_pk r \<noteq> t_pk self') (transactions d) \<and>
              beats d' (pk b) = Some (b\<lparr>status := Sold, reserved_until := None\<rparr>) \<and>
              (\<exists>self'' d''. Transaction_save later self' d' = Inr (self'', d'') \<and>
                 t_completed_at self'' = Some now \<and> d'' = d'))) \<and>
         (t_completed_at self = Some c \<longrightarrow>
           (\<exists>self' d'. Transaction_save now self d = Inr (self', d') \<and>
              t_status self' = Completed \<and> t_completed_at self' = Some c \<and>
              self'\<lparr>t_beat := None\<rparr> \<in> set (transactions d') \<and>
              (\<forall>row \<in> set (transactions d'). t_pk row = t_pk self' \<longrightarrow>
                 row = self'\<lparr>t_beat := None\<rparr> \<and>
                 t_status row = Completed \<and> t_completed_at row = Some c) \<and>
              beats d' = beats d))"
proof (intro conjI impI)
  assume fresh: "t_completed_at self = None"
  let ?b1 = "b\<lparr>status := Sold, reserved_until := None\<rparr>"
  let ?s1 = "self\<lparr>t_completed_at := Some now, t_beat := Some ?b1\<rparr>"
  let ?d0 = "Beat_save ?b1 d"
  let ?r = "Model_save ?s1 ?d0"
  have first: "Transaction_save now self d = Inr ?r"
    using assms fresh by (simp add: Transaction_save_def complete_purchase_def Let_def)
  have st: "t_status (fst ?r) = Completed"
    using assms by (simp add: Model_save_status)
  have ca: "t_completed_at (fst ?r) = Some now"
    by (simp add: Model_save_completed_at)
  have col: "fst ?r = self\<lparr>t_pk := t_pk (fst ?r), t_beat := Some ?b1, t_completed_at := Some now\<rparr>"
    by (cases "t_pk self") (auto simp add: Model_save_def Let_def intro!: transaction.equality)
  have pk1: "t_pk (fst ?r) \<noteq> None" by (rule Model_save_pk)
  have pk2: "t_pk self \<noteq> None \<longrightarrow> t_pk (fst ?r) = t_pk self"
    using Model_save_keeps_pk [of ?s1 ?d0] by simp
  have mem: "(fst ?r)\<lparr>t_beat := None\<rparr> \<in> set (transactions (snd ?r))"
    by (rule Model_save_row_stored)
  have only: "\<forall>row \<in> set (transactions (snd ?r)). t_pk row = t_pk (fst ?r) \<longrightarrow>
                 row = (fst ?r)\<lparr>t_beat := None\<rparr> \<and>
                 t_status row = Completed \<and> t_completed_at row = Some now"
  proof (intro ballI impI)
    fix row assume "row \<in> set (transactions (snd ?r))" and "t_pk row = t_pk (fst ?r)"
    then have "row = (fst ?r)\<lparr>t_beat := None\<rparr>" by (rule Model_save_row_only)
    with st ca show "row = (fst ?r)\<lparr>t_beat := None\<rparr> \<and>
                 t_status row = Completed \<and> t_completed_at row = Some now" by simp
  qed
  have oth: "filter (\<lambda>r. t_pk r \<noteq> t_pk (fst ?r)) (transactions (snd ?r))
                = filter (\<lambda>r. t_pk r \<noteq> t_pk (fst ?r)) (transactions d)"
    using Model_save_other_rows [of ?s1 ?d0] by (simp add: Beat_save_def)
  have bt: "beats (snd ?r) (pk b) = Some ?b1"
    by (simp add: Model_save_beats Beat_save_def)
  have again: "Transaction_save later (fst ?r) (snd ?r) = Inr ?r"
    using st ca by (simp add: Transaction_save_def Model_save_twice)
  have inner: "\<exists>self'' d''. Transaction_save later (fst ?r) (snd ?r) = Inr (self'', d'') \<and>
                 t_completed_at self'' = Some now \<and> d'' = snd ?r"
    using again ca by (intro exI [of _ "fst ?r"] exI [of _ "snd ?r"]) simp
  have "Transaction_save now self d = Inr (fst ?r, snd ?r)" using first by simp
  with st ca col pk1 pk2 mem only oth bt inner
  show "\<exists>self' d'. Transaction_save now self d = Inr (self', d') \<and>
              t_status self' = Completed \<and> t_completed_at self' = Some now \<and>
              self' = self\<lparr>t_pk := t_pk self',
                            t_beat := Some (b\<lparr>status := Sold, reserved_until := None\<rparr>),
                            t_completed_at := Some now\<rparr> \<and>
              t_pk self' \<noteq> None \<and> (t_pk self \<noteq> None \<longrightarrow> t_pk self' = t_pk self) \<and>
              self'\<lparr>t_beat := None\<rparr> \<in> set (transactions d') \<and>
              (\<forall>row \<in> set (transactions d'). t_pk row = t_pk self' \<longrightarrow>
                 row = self'\<lparr>t_beat := None\<rparr> \<and>
                 t_status row = Completed \<and> t_completed_at row = Some now) \<and>
              filter (\<lambda>r. t_pk r \<noteq> t_pk self') (transactions d')
                = filter (\<lambda>r. t_pk r \<noteq> t_pk self') (transactions d) \<and>
              beats d' (pk b) = Some (b\<lparr>status := Sold, reserved_until := None\<rparr>) \<and>
              (\<exists>self'' d''. Transaction_save later self' d' = Inr (self'', d'') \<and>
                 t_completed_at self'' = Some now \<and> d'' = d')"
    by blast
next
  assume already: "t_completed_at self = Some c"
  let ?r = "Model_save self d"
  have sv: "Transaction_save now self d = Inr (fst ?r, snd ?r)"
    using assms already by (simp add: Transaction_save_def)
  have st: "t_status (fst ?r) = Completed" using assms by (simp add: Model_save_status)
  have ca: "t_completed_at (fst ?r) = Some c" using already by (simp add: Model_save_completed_at)
  have mem: "(fst ?r)\<lparr>t_beat := None\<rparr> \<in> set (transactions (snd ?r))"
    by (rule Model_save_row_stored)
  have only: "\<forall>row \<in> set (transactions (snd ?r)). t_pk row = t_pk (fst ?r) \<longrightarrow>
                 row = (fst ?r)\<lparr>t_beat := None\<rparr> \<and>
                 t_status row = Completed \<and> t_completed_at row = Some c"
  proof (intro ballI impI)
    fix row assume "row \<in> set (transactions (snd ?r))" and "t_pk row = t_pk (fst ?r)"
    then have "row = (fst ?r)\<lparr>t_beat := None\<rparr>" by (rule Model_save_row_only)
    with st ca show "row = (fst ?r)\<lparr>t_beat := None\<rparr> \<and>
                 t_status row = Completed \<and> t_completed_at row = Some c" by simp
  qed
  have bt: "beats (snd ?r) = beats d" by (rule Model_save_beats)
  from sv st ca mem only bt
  show "\<exists>self' d'. Transaction_save now self d = Inr (self', d') \<and>
              t_status self' = Completed \<and> t_completed_at self' = Some c \<and>
              self'\<lparr>t_beat := None\<rparr> \<in> set (transactions d') \<and>
              (\<forall>row \<in> set (transactions d'). t_pk row = t_pk self' \<longrightarrow>
                 row = self'\<lparr>t_beat := None\<rparr> \<and>
                 t_status row = Completed \<and> t_completed_at row = Some c) \<and>
              beats d' = beats d"
    by blast
qed

theorem Transaction_save_completed_witness:
  "(\<exists>self' d'. Transaction_save 5 completed_transaction example_db = Inr (self', d') \<and>
      t_status self' = Completed \<and> t_completed_at self' = Some 5 \<and>
      self'\<lparr>t_beat := None\<rparr> \<in> set (transactions d') \<and>
      beats d' 1 = Some (example_beat\<lparr>status := Sold, reserved_until := None\<rparr>) \<and>
      (\<exists>self'' d''. Transaction_save 9 self' d' = Inr (self'', d'') \<and>
         t_completed_at self'' = Some 5 \<and> d'' = d')) \<and>
   (\<exists>self' d'. Transaction_save 5 (pending_transaction\<lparr>t_status := Completed\<rparr>) ledger_db
        = Inr (self', d') \<and>
      t_pk self' = Some 1 \<and> t_status self' = Completed \<and> t_completed_at self' = Some 5 \<and>
      self'\<lparr>t_beat := None\<rparr> \<in> set (transactions d') \<and>
      beats d' 1 = Some (example_beat\<lparr>status := Sold, reserved_until := None\<rparr>)) \<and>
   map t_pk (transactions (snd (projr
      (Transaction_save 5 (pending_transaction\<lparr>t_status := Completed\<rparr>) ledger_db))))
     = [Some 1, Some 2] \<and>
   map t_status (transactions (snd (projr
      (Transaction_save 5 (pending_transaction\<lparr>t_status := Completed\<rparr>) ledger_db))))
     = [Completed, Failed] \<and>
   map t_completed_at (transactions (snd (projr
      (Transaction_save 5 (pending_transaction\<lparr>t_status := Completed\<rparr>) ledger_db))))
     = [Some 5, None]"
proof -
  have s: "t_status completed_transaction = Completed"
    and c: "t_completed_at completed_transaction = None"
    by (simp_all add: completed_transaction_def)
  have b: "transaction_beat completed_transaction example_db = Inr example_beat"
    by (simp add: transaction_beat_def completed_transaction_def example_db_def)
  have p: "pk example_beat = 1" by (simp add: example_beat_def)
  have s2: "t_status (pending_transaction\<lparr>t_status := Completed\<rparr>) = Completed" by simp
  have c2: "t_completed_at (pending_transaction\<lparr>t_status := Completed\<rparr>) = None"
    and k2: "t_pk (pending_transaction\<lparr>t_status := Completed\<rparr>) = Some 1"
    by (simp_all add: pending_transaction_def)
  have b2: "transaction_beat (pending_transaction\<lparr>t_status := Completed\<rparr>) ledger_db
      = Inr example_beat"
    by (simp add: transaction_beat_def pending_transaction_def ledger_db_def)
  have first: "\<exists>self' d'. Transaction_save 5 completed_transaction example_db = Inr (self', d') \<and>
      t_status self' = Completed \<and> t_completed_at self' = Some 5 \<and>
      self'\<lparr>t_beat := None\<rparr> \<in> set (transactions d') \<and>
      beats d' 1 = Some (example_beat\<lparr>status := Sold, reserved_until := None\<rparr>) \<and>
      (\<exists>self'' d''. Transaction_save 9 self' d' = Inr (self'', d'') \<and>
         t_completed_at self'' = Some 5 \<and> d'' = d')"
    using Transaction_save_completed [OF s b, of 5 9] c p by auto
  have second: "\<exists>self' d'. Transaction_save 5 (pending_transaction\<lparr>t_status := Completed\<rparr>) ledger_db
        = Inr (self', d') \<and>
      t_pk self' = Some 1 \<and> t_status self' = Completed \<and> t_completed_at self' = Some 5 \<and>
      self'\<lparr>t_beat := None\<rparr> \<in> set (transactions d') \<and>
      beats d' 1 = Some (example_beat\<lparr>status := Sold, reserved_until := None\<rparr>)"
    using Transaction_save_completed [OF s2 b2, of 5 9] c2 k2 p by auto
  have rows: "transactions (snd (projr
      (Transaction_save 5 (pending_transaction\<lparr>t_status := Completed\<rparr>) ledger_db)))
     = [pending_transaction\<lparr>t_status := Completed, t_completed_at := Some 5\<rparr>,
        pending_transaction\<lparr>t_pk := Some 2, t_status := Failed\<rparr>]"
    by (simp add: Transaction_save_def transaction_beat_def complete_purchase_def
          Model_save_def Beat_save_def ledger_db_def pending_transaction_def Let_def)
  have maps: "map t_pk [pending_transaction\<lparr>t_status := Completed, t_completed_at := Some 5\<rparr>,
        pending_transaction\<lparr>t_pk := Some 2, t_status := Failed\<rparr>] = [Some 1, Some 2]"
    "map t_completed_at [pending_transaction\<lparr>t_status := Completed, t_completed_at := Some 5\<rparr>,
        pending_transaction\<lparr>t_pk := Some 2, t_status := Failed\<rparr>] = [Some 5, None]"
    by (simp_all add: pending_transaction_def)
  from first second rows maps show ?thesis by simp
qed

section \<open>Reservation\<close>

text \<open>
  Claim C4, as stated, fails. The beat is reserved at time 0, so that the hold lasts
  until 300 s. A second attempt one second later is not refused: it returns like the
  first and moves the deadline to 301 s, and so does an attempt of a second buyer who
  still holds the instance read while the beat was available.
\<close>

theorem reserve_for_purchase_twice_counterexample:
  "status (fst (reserve_for_purchase 0 example_beat example_db)) = Reserved \<and>
   reserved_until (fst (reserve_for_purchase 0 example_beat example_db)) = Some 300000000 \<and>
   reserved_until (fst (reserve_for_purchase 1000000
       (fst (reserve_for_purchase 0 example_beat example_db))
       (snd (reserve_for_purchase 0 example_beat example_db)))) = Some 301000000 \<and>
   map_option reserved_until (beats (snd (reserve_for_purchase 1000000 example_beat
       (snd (reserve_for_purchase 0 example_beat example_db)))) 1) = Some (Some 301000000)"
  by (simp add: reserve_for_purchase_def Beat_save_def example_beat_def example_db_def
        timedelta_minutes_def Let_def)

text \<open>
  Claim C4, amended. \<open>reserve_for_purchase\<close> never refuses and has no error result:
  whatever the state of the beat, it leaves the instance reserved until five minutes
  from now, changes no other attribute and stores the instance. An attempt on a beat
  that is already reserved replaces the earlier hold: the outcome is that of the later
  attempt alone.
\<close>

theorem reserve_for_purchase_always_grants:
  "fst (reserve_for_purchase now self d)
     = self\<lparr>status := Reserved, reserved_until := Some (now + timedelta_minutes 5)\<rparr> \<and>
   beats (snd (reserve_for_purchase now self d)) (pk self)
     = Some (fst (reserve_for_purchase now self d)) \<and>
   reserve_for_purchase later (fst (reserve_for_purchase now self d))
       (snd (reserve_for_purchase now self d))
     = reserve_for_purchase later self d"
  by (simp add: reserve_for_purchase_def Beat_save_def Let_def)

section \<open>The state downloaded\<close>

text \<open>
  Claim C7, as stated, fails. A beat in state downloaded becomes sold when a purchase
  is completed, directly and through the save of a completed transaction, and becomes
  reserved when it is reserved.
\<close>

theorem downloaded_not_terminal_counterexample:
  "status downloaded_beat = Downloaded \<and>
   status (fst (complete_purchase downloaded_beat downloaded_db)) = Sold \<and>
   status (fst (reserve_for_purchase 0 downloaded_beat downloaded_db)) = Reserved \<and>
   map_option status
     (beats (snd (projr (Transaction_save 5 completed_transaction downloaded_db))) 1) = Some Sold"
  by (simp add: complete_purchase_def reserve_for_purchase_def Transaction_save_def
        transaction_beat_def Model_save_def Beat_save_def completed_transaction_def
        downloaded_beat_def downloaded_db_def example_beat_def Let_def)

section \<open>Facts about the delivery\<close>

text \<open>The receiver of a history creation does what \<open>mark_as_downloaded\<close> does, so a
  delivery that gets as far as the file runs the increment twice on the same instance.\<close>

lemma receiver_is_mark_as_downloaded:
  "update_beat_download_count True b d = mark_as_downloaded b d"
  by (simp add: update_beat_download_count_def mark_as_downloaded_def)

lemma mark_as_downloaded_fst:
  "download_count (fst (mark_as_downloaded b d)) = download_count b + 1"
  "pk (fst (mark_as_downloaded b d)) = pk b"
  "max_downloads (fst (mark_as_downloaded b d)) = max_downloads b"
  "status (fst (mark_as_downloaded b d)) = Downloaded \<or>
   status (fst (mark_as_downloaded b d)) = status b"
  by (simp_all add: mark_as_downloaded_def Let_def)

lemma mark_as_downloaded_snd:
  "snd (mark_as_downloaded b d) = Beat_save (fst (mark_as_downloaded b d)) d"
  by (simp add: mark_as_downloaded_def Let_def)

lemma DownloadHistory_objects_create_keyword:
  "DownloadHistory_objects_create RejectUnknown now u b (Some c) d = (Some TypeError, b, d)"
  "DownloadHistory_objects_create KeepUnknown now u b (Some c) d =
     (None, mark_as_downloaded b
        (d\<lparr>histories := histories d @ [\<lparr>h_beat = pk b, h_buyer = u, downloaded_at = now\<rparr>]\<rparr>))"
  by (simp_all add: DownloadHistory_objects_create_def receiver_is_mark_as_downloaded
        auto_increment_download_count_def split: prod.splits)

lemma download_beat_delivery:
  assumes "beats d k = Some b" and "buyer_profile req = Some u" and "has_purchased u b d"
    and "audio_file b \<noteq> []" and "exists (audio_file b)"
  shows "download_beat RejectUnknown exists now req k d = (ServerError TypeError, d)"
    and "download_beat KeepUnknown exists now req k d =
      (FileResponse (audio_file b) (title b @ ''.mp3''),
       snd (mark_as_downloaded
         (fst (mark_as_downloaded b
            (d\<lparr>histories := histories d @ [\<lparr>h_beat = pk b, h_buyer = u, downloaded_at = now\<rparr>]\<rparr>)))
         (snd (mark_as_downloaded b
            (d\<lparr>histories := histories d @ [\<lparr>h_beat = pk b, h_buyer = u, downloaded_at = now\<rparr>]\<rparr>)))))"
  using assms
  by (simp_all add: download_beat_def DownloadHistory_objects_create_keyword split: prod.splits)

lemma download_beat_no_delivery:
  assumes "beats d k = None \<or> buyer_profile req = None \<or>
    (\<exists>b u. beats d k = Some b \<and> buyer_profile req = Some u \<and>
      (\<not> has_purchased u b d \<or> audio_file b = [] \<or> \<not> exists (audio_file b)))"
  shows "snd (download_beat pol exists now req k d) = d"
  using assms
  by (auto simp add: download_beat_def split: option.splits)

lemma mark_as_downloaded_row:
  "beats (snd (mark_as_downloaded b d)) (pk b) = Some (fst (mark_as_downloaded b d))"
  "histories (snd (mark_as_downloaded b d)) = histories d"
  "transactions (snd (mark_as_downloaded b d)) = transactions d"
  by (simp_all add: mark_as_downloaded_def Beat_save_def Let_def)

lemma mark_as_downloaded_keeps_downloaded:
  "status b = Downloaded \<Longrightarrow> status (fst (mark_as_downloaded b d)) = Downloaded"
  by (simp add: mark_as_downloaded_def Let_def)

section \<open>Delivery through the download endpoint\<close>

text \<open>
  Claim C1 fails on the code. Let the beat exist, let the buyer hold a completed
  transaction for it and let the file exist. Under Django's constructor the history
  row is never built: the view ends in \<open>TypeError\<close>, no row is written and the count
  does not move. Were the keyword kept, the file would be served and one row written,
  but the count of the stored beat would rise by two: once in the receiver
  \<open>update_beat_download_count\<close> and once in \<open>mark_as_downloaded\<close>.
\<close>

theorem download_beat_count_not_one:
  assumes "beats d k = Some b" and "pk b = k" and "buyer_profile req = Some u"
    and "has_purchased u b d" and "audio_file b \<noteq> []" and "exists (audio_file b)"
  shows "download_beat RejectUnknown exists now req k d = (ServerError TypeError, d) \<and>
         fst (download_beat KeepUnknown exists now req k d)
           = FileResponse (audio_file b) (title b @ ''.mp3'') \<and>
         histories (snd (download_beat KeepUnknown exists now req k d))
           = histories d @ [\<lparr>h_beat = k, h_buyer = u, downloaded_at = now\<rparr>] \<and>
         map_option download_count (beats (snd (download_beat KeepUnknown exists now req k d)) k)
           = Some (download_count b + 2)"
proof -
  let ?d1 = "d\<lparr>histories := histories d @ [\<lparr>h_beat = pk b, h_buyer = u, downloaded_at = now\<rparr>]\<rparr>"
  let ?m1 = "mark_as_downloaded b ?d1"
  let ?m2 = "mark_as_downloaded (fst ?m1) (snd ?m1)"
  note dl = download_beat_delivery [where exists = exists and now = now,
      OF assms(1) assms(3) assms(4) assms(5) assms(6)]
  have pk2: "pk (fst ?m1) = k" using assms(2) by (simp add: mark_as_downloaded_fst)
  have row: "beats (snd ?m2) k = Some (fst ?m2)"
    using mark_as_downloaded_row(1) [of "fst ?m1" "snd ?m1"] pk2 by simp
  have cnt: "download_count (fst ?m2) = download_count b + 2"
    by (simp add: mark_as_downloaded_fst)
  have hist: "histories (snd ?m2) = histories ?d1"
    by (simp add: mark_as_downloaded_row)
  from dl row cnt hist assms(2) show ?thesis by simp
qed

theorem download_beat_count_not_one_witness:
  "download_beat RejectUnknown stored 9 buyer_request 1 purchased_db
     = (ServerError TypeError, purchased_db) \<and>
   fst (download_beat KeepUnknown stored 9 buyer_request 1 purchased_db)
     = FileResponse ''beats/intro.mp3'' ''Intro.mp3'' \<and>
   histories (snd (download_beat KeepUnknown stored 9 buyer_request 1 purchased_db))
     = [\<lparr>h_beat = 1, h_buyer = 7, downloaded_at = 9\<rparr>] \<and>
   map_option download_count
     (beats (snd (download_beat KeepUnknown stored 9 buyer_request 1 purchased_db)) 1) = Some 2"
proof -
  have 1: "beats purchased_db 1 = Some sold_beat" by (simp add: purchased_db_def)
  have 2: "pk sold_beat = 1" by (simp add: sold_beat_def example_beat_def)
  have 3: "buyer_profile buyer_request = Some 7" by (simp add: buyer_request_def)
  have 4: "has_purchased 7 sold_beat purchased_db"
    by (simp add: has_purchased_def purchased_db_def sold_transaction_def
          completed_transaction_def sold_beat_def example_beat_def)
  have 5: "audio_file sold_beat \<noteq> []" by (simp add: sold_beat_def example_beat_def)
  have 6: "stored (audio_file sold_beat)" by (simp add: stored_def sold_beat_def example_beat_def)
  have 7: "audio_file sold_beat = ''beats/intro.mp3''" "title sold_beat = ''Intro''"
    "download_count sold_beat = 0" "histories purchased_db = []"
    by (simp_all add: purchased_db_def sold_beat_def example_beat_def)
  from download_beat_count_not_one [where exists = stored and now = 9, OF 1 2 3 4 5 6]
  show ?thesis by (auto simp add: 7 numeral_2_eq_2)
qed

text \<open>
  Claim C2 fails on the code. The beat has used its single download
  (\<open>download_count = max_downloads = 1\<close>). The receiver run on the creation of a
  history row and \<open>mark_as_downloaded\<close> both add one without looking at the quota, so
  creating a history row stores the beat with count 2, and a further delivery, were the
  keyword of the constructor kept, stores it with count 3.
\<close>

theorem download_count_exceeds_max_downloads:
  "download_count downloaded_beat = 1 \<and> max_downloads downloaded_beat = 1 \<and>
   download_count (fst (mark_as_downloaded downloaded_beat exhausted_db)) = 2 \<and>
   max_downloads (fst (mark_as_downloaded downloaded_beat exhausted_db)) = 1 \<and>
   download_count (fst (update_beat_download_count True downloaded_beat exhausted_db)) = 2 \<and>
   map_option download_count
     (beats (snd (snd (DownloadHistory_objects_create RejectUnknown 9 7 downloaded_beat None
        exhausted_db))) 1) = Some 2 \<and>
   map_option download_count
     (beats (snd (download_beat KeepUnknown stored 9 buyer_request 1 exhausted_db)) 1) = Some 3 \<and>
   map_option max_downloads
     (beats (snd (download_beat KeepUnknown stored 9 buyer_request 1 exhausted_db)) 1) = Some 1"
  by (simp add: mark_as_downloaded_def update_beat_download_count_def
        DownloadHistory_objects_create_def auto_increment_download_count_def download_beat_def
        has_purchased_def Beat_save_def stored_def buyer_request_def exhausted_db_def
        downloaded_beat_def sold_transaction_def completed_transaction_def example_beat_def
        Let_def)

text \<open>
  Claim C3 fails on the code. The buyer has bought the beat and the beat is not
  downloadable, its quota being used up. The view never asks \<open>is_downloadable\<close>:
  with the file missing it answers that the file does not exist, and with the file in
  place it goes on to the delivery (which serves the file if the constructor keeps the
  keyword, and ends in \<open>TypeError\<close> if it does not). No answer says that the quota is
  exhausted.
\<close>

theorem download_beat_skips_is_downloadable:
  "has_purchased 7 downloaded_beat exhausted_db \<and> \<not> is_downloadable downloaded_beat \<and>
   download_beat RejectUnknown missing 9 buyer_request 1 exhausted_db
     = (HttpResponseForbidden ''File does not exist.'', exhausted_db) \<and>
   download_beat KeepUnknown missing 9 buyer_request 1 exhausted_db
     = (HttpResponseForbidden ''File does not exist.'', exhausted_db) \<and>
   fst (download_beat KeepUnknown stored 9 buyer_request 1 exhausted_db)
     = FileResponse ''beats/intro.mp3'' ''Intro.mp3'' \<and>
   download_beat RejectUnknown stored 9 buyer_request 1 exhausted_db
     = (ServerError TypeError, exhausted_db)"
  by (simp add: is_downloadable_def mark_as_downloaded_def update_beat_download_count_def
        DownloadHistory_objects_create_def auto_increment_download_count_def download_beat_def
        has_purchased_def Beat_save_def stored_def missing_def buyer_request_def
        exhausted_db_def downloaded_beat_def sold_transaction_def completed_transaction_def
        example_beat_def Let_def)

section \<open>What keeps the state downloaded\<close>

lemma download_beat_keeps_downloaded:
  assumes "beats d k = Some self" and "pk self = k" and "status self = Downloaded"
  shows "map_option status (beats (snd (download_beat pol exists now req k d)) k) = Some Downloaded"
proof (cases "\<exists>u. buyer_profile req = Some u \<and> has_purchased u self d \<and>
                  audio_file self \<noteq> [] \<and> exists (audio_file self)")
  case True
  then obtain u where u: "buyer_profile req = Some u" "has_purchased u self d"
    "audio_file self \<noteq> []" "exists (audio_file self)" by blast
  note dl = download_beat_delivery [where exists = exists and now = now,
      OF assms(1) u(1) u(2) u(3) u(4)]
  let ?d1 = "d\<lparr>histories := histories d @ [\<lparr>h_beat = pk self, h_buyer = u, downloaded_at = now\<rparr>]\<rparr>"
  let ?m1 = "mark_as_downloaded self ?d1"
  let ?m2 = "mark_as_downloaded (fst ?m1) (snd ?m1)"
  have "pk (fst ?m1) = k" using assms(2) by (simp add: mark_as_downloaded_fst)
  then have row: "beats (snd ?m2) k = Some (fst ?m2)"
    using mark_as_downloaded_row(1) [of "fst ?m1" "snd ?m1"] by simp
  have "status (fst ?m2) = Downloaded"
    using assms(3) by (simp add: mark_as_downloaded_keeps_downloaded)
  with row dl assms(1,3) show ?thesis by (cases pol) simp_all
next
  case False
  with assms(1) have "snd (download_beat pol exists now req k d) = d"
    by (intro download_beat_no_delivery) (cases "buyer_profile req"; auto)
  with assms(1,3) show ?thesis by simp
qed

lemma Transaction_save_not_completing:
  assumes "transaction_beat tx d = Inr self" and "status self = Downloaded"
    and "t_status tx \<noteq> Completed \<or> t_completed_at tx \<noteq> None"
  shows "\<exists>tx' d'. Transaction_save now tx d = Inr (tx', d') \<and> beats d' = beats d"
proof -
  have rel: "release_reservation now self d = (self, d)"
    using assms(2) by (simp add: release_reservation_def split: option.splits)
  have "Transaction_save now tx d = Inr (Model_save tx d) \<or>
        Transaction_save now tx d = Inr (Model_save (tx\<lparr>t_beat := Some self\<rparr>) d)"
    using assms(1,3) rel by (auto simp add: Transaction_save_def)
  then show ?thesis
  proof
    assume "Transaction_save now tx d = Inr (Model_save tx d)"
    then show ?thesis
      by (intro exI [of _ "fst (Model_save tx d)"] exI [of _ "snd (Model_save tx d)"])
         (simp add: Model_save_beats)
  next
    assume "Transaction_save now tx d = Inr (Model_save (tx\<lparr>t_beat := Some self\<rparr>) d)"
    then show ?thesis
      by (intro exI [of _ "fst (Model_save (tx\<lparr>t_beat := Some self\<rparr>) d)"]
            exI [of _ "snd (Model_save (tx\<lparr>t_beat := Some self\<rparr>) d)"])
         (simp add: Model_save_beats)
  qed
qed

text \<open>
  Claim C7, amended. For a beat in state downloaded: release and the availability
  check change nothing; \<open>mark_as_downloaded\<close> and the receiver of a history creation
  keep the state; the save of a transaction that is not completed, or that has its
  \<open>completed_at\<close> already, leaves every beat as it is; and after a request to the
  download endpoint the stored beat is still downloaded. Only \<open>reserve_for_purchase\<close>
  and \<open>complete_purchase\<close> (hence the first save of a completed transaction) leave
  the state, to reserved and to sold.
\<close>

theorem downloaded_kept_except_reserve_and_complete:
  assumes "status self = Downloaded"
  shows "release_reservation now self d = (self, d) \<and>
         is_available now self d = (False, self, d) \<and>
         status (fst (mark_as_downloaded self d)) = Downloaded \<and>
         status (fst (update_beat_download_count created self d)) = Downloaded \<and>
         (transaction_beat tx d = Inr self \<and>
            (t_status tx \<noteq> Completed \<or> t_completed_at tx \<noteq> None) \<longrightarrow>
            (\<exists>tx' d'. Transaction_save now tx d = Inr (tx', d') \<and> beats d' = beats d)) \<and>
         (beats d (pk self) = Some self \<longrightarrow>
            map_option status
              (beats (snd (download_beat pol exists now req (pk self) d)) (pk self))
              = Some Downloaded) \<and>
         status (fst (reserve_for_purchase now self d)) = Reserved \<and>
         status (fst (complete_purchase self d)) = Sold"
proof -
  have rel: "release_reservation now self d = (self, d)"
    using assms by (simp add: release_reservation_def split: option.splits)
  have av: "is_available now self d = (False, self, d)"
    using assms rel by (simp add: is_available_def)
  have mk: "status (fst (mark_as_downloaded self d)) = Downloaded"
    using assms by (rule mark_as_downloaded_keeps_downloaded)
  have rc: "status (fst (update_beat_download_count created self d)) = Downloaded"
    using assms by (simp add: update_beat_download_count_def Let_def)
  have tx: "transaction_beat tx d = Inr self \<and>
            (t_status tx \<noteq> Completed \<or> t_completed_at tx \<noteq> None) \<longrightarrow>
            (\<exists>tx' d'. Transaction_save now tx d = Inr (tx', d') \<and> beats d' = beats d)"
    using assms Transaction_save_not_completing by blast
  have dl: "beats d (pk self) = Some self \<longrightarrow>
            map_option status
              (beats (snd (download_beat pol exists now req (pk self) d)) (pk self))
              = Some Downloaded"
    using assms download_beat_keeps_downloaded by blast
  have rs: "status (fst (reserve_for_purchase now self d)) = Reserved"
    by (simp add: reserve_for_purchase_def Let_def)
  have cp: "status (fst (complete_purchase self d)) = Sold"
    by (simp add: complete_purchase_def Let_def)
  from rel av mk rc tx dl rs cp show ?thesis by blast
qed

theorem downloaded_kept_except_reserve_and_complete_witness:
  "release_reservation 9 downloaded_beat exhausted_db = (downloaded_beat, exhausted_db) \<and>
   status (fst (mark_as_downloaded downloaded_beat exhausted_db)) = Downloaded \<and>
   (\<exists>tx' d'. Transaction_save 9 (sold_transaction\<lparr>t_status := Cancelled\<rparr>) exhausted_db
       = Inr (tx', d') \<and> beats d' = beats exhausted_db) \<and>
   map_option status
     (beats (snd (download_beat KeepUnknown stored 9 buyer_request 1 exhausted_db)) 1)
     = Some Downloaded \<and>
   status (fst (complete_purchase downloaded_beat exhausted_db)) = Sold"
proof -
  have 1: "status downloaded_beat = Downloaded" by (simp add: downloaded_beat_def)
  have 2: "transaction_beat (sold_transaction\<lparr>t_status := Cancelled\<rparr>) exhausted_db
      = Inr downloaded_beat"
    by (simp add: transaction_beat_def sold_transaction_def completed_transaction_def
          exhausted_db_def)
  have 3: "t_status (sold_transaction\<lparr>t_status := Cancelled\<rparr>) \<noteq> Completed" by simp
  have 4: "pk downloaded_beat = 1" by (simp add: downloaded_beat_def example_beat_def)
  have 5: "beats exhausted_db 1 = Some downloaded_beat" by (simp add: exhausted_db_def)
  from downloaded_kept_except_reserve_and_complete [OF 1,
      where now = 9 and d = exhausted_db and tx = "sold_transaction\<lparr>t_status := Cancelled\<rparr>"
        and pol = KeepUnknown and exists = stored and req = buyer_request]
    2 3 4 5
  show ?thesis by simp
qed

section \<open>Effects of a delivery and of a completed transaction on the database\<close>

text \<open>A request to the download endpoint for the key \<open>k0\<close> touches no transaction and
  no beat of another key, and writes at most one history row, of \<open>k0\<close>.\<close>

lemma download_beat_effect:
  assumes wf: "\<And>b0. beats d k0 = Some b0 \<Longrightarrow> pk b0 = k0"
  shows "transactions (snd (download_beat pol exists now req k0 d)) = transactions d"
    and "j \<noteq> k0 \<Longrightarrow> beats (snd (download_beat pol exists now req k0 d)) j = beats d j"
    and "histories (snd (download_beat pol exists now req k0 d)) = histories d \<or>
         (\<exists>u. buyer_profile req = Some u \<and>
            histories (snd (download_beat pol exists now req k0 d))
              = histories d @ [\<lparr>h_beat = k0, h_buyer = u, downloaded_at = now\<rparr>])"
proof -
  let ?r = "download_beat pol exists now req k0 d"
  have "snd ?r = d \<or>
    (\<exists>b0 u. beats d k0 = Some b0 \<and> buyer_profile req = Some u \<and>
       snd ?r = snd (mark_as_downloaded
         (fst (mark_as_downloaded b0
            (d\<lparr>histories := histories d @ [\<lparr>h_beat = pk b0, h_buyer = u, downloaded_at = now\<rparr>]\<rparr>)))
         (snd (mark_as_downloaded b0
            (d\<lparr>histories := histories d @ [\<lparr>h_beat = pk b0, h_buyer = u, downloaded_at = now\<rparr>]\<rparr>)))))"
  proof (cases "\<exists>b0 u. beats d k0 = Some b0 \<and> buyer_profile req = Some u \<and>
      has_purchased u b0 d \<and> audio_file b0 \<noteq> [] \<and> exists (audio_file b0)")
    case True
    then obtain b0 u where h: "beats d k0 = Some b0" "buyer_profile req = Some u"
      "has_purchased u b0 d" "audio_file b0 \<noteq> []" "exists (audio_file b0)" by blast
    note dl = download_beat_delivery [where exists = exists and now = now,
        OF h(1) h(2) h(3) h(4) h(5)]
    show ?thesis
    proof (cases pol)
      case RejectUnknown
      with dl(1) show ?thesis by simp
    next
      case KeepUnknown
      with dl(2) h(1) h(2) show ?thesis by simp
    qed
  next
    case False
    then have "snd ?r = d"
      by (intro download_beat_no_delivery)
         (cases "beats d k0"; cases "buyer_profile req"; auto)
    then show ?thesis by simp
  qed
  then consider (same) "snd ?r = d"
    | (served) b0 u where "beats d k0 = Some b0" "buyer_profile req = Some u"
       "snd ?r = snd (mark_as_downloaded
         (fst (mark_as_downloaded b0
            (d\<lparr>histories := histories d @ [\<lparr>h_beat = pk b0, h_buyer = u, downloaded_at = now\<rparr>]\<rparr>)))
         (snd (mark_as_downloaded b0
            (d\<lparr>histories := histories d @ [\<lparr>h_beat = pk b0, h_buyer = u, downloaded_at = now\<rparr>]\<rparr>))))"
    by blast
  note cases = this
  show "transactions (snd ?r) = transactions d"
    using cases by cases (simp_all add: mark_as_downloaded_row)
  show "j \<noteq> k0 \<Longrightarrow> beats (snd ?r) j = beats d j"
  proof -
    assume j: "j \<noteq> k0"
    from cases show ?thesis
    proof cases
      case same then show ?thesis by simp
    next
      case (served b0 u)
      from wf [OF served(1)] have "pk b0 = k0" .
      with j served(3) show ?thesis
        by (simp add: mark_as_downloaded_snd mark_as_downloaded_fst Beat_save_def)
    qed
  qed
  show "histories (snd ?r) = histories d \<or>
         (\<exists>u. buyer_profile req = Some u \<and>
            histories (snd ?r) = histories d @ [\<lparr>h_beat = k0, h_buyer = u, downloaded_at = now\<rparr>])"
    using cases
  proof cases
    case same then show ?thesis by simp
  next
    case (served b0 u)
    from wf [OF served(1)] have "pk b0 = k0" .
    with served(2,3) show ?thesis by (simp add: mark_as_downloaded_row)
  qed
qed

lemma download_beat_not_found:
  "beats d k0 = None \<Longrightarrow> download_beat pol exists now req k0 d = (Http404, d)"
  by (simp add: download_beat_def)

lemma Transaction_objects_create_completed:
  "\<exists>tx d1. Transaction_objects_create now u b amount Completed d = Inr (tx, d1) \<and>
     beats d1 = (beats d)(pk b \<mapsto> b\<lparr>status := Sold, reserved_until := None\<rparr>) \<and>
     transactions d1 = transactions d @
       [\<lparr>t_pk = Some (fresh_pk (transactions d)), t_buyer = u, t_beat_id = pk b, t_beat = None,
         t_amount = amount, t_status = Completed, t_payment_method = [],
         t_payment_reference = [], t_completed_at = Some now\<rparr>] \<and>
     histories d1 = histories d"
  by (simp add: Transaction_objects_create_def Transaction_save_def transaction_beat_def
        complete_purchase_def Model_save_def Beat_save_def Let_def)

lemma payment_response_successful:
  assumes "session_current_beat_id req = Some k" and "k \<noteq> 0" and "beats d k = Some b"
    and "GET_status req = Some ''successful''" and "buyer_profile req = Some u"
    and "Transaction_objects_create now u b (price b) Completed d = Inr (tx, d1)"
  shows "snd (snd (payment_response pol exists now req d))
           = snd (download_beat pol exists now req beat_id_global d1)"
    and "fst (payment_response pol exists now req d) \<noteq> FileResponse path name"
    and "fst (download_beat pol exists now req beat_id_global d1) = Http404 \<Longrightarrow>
           fst (payment_response pol exists now req d) = Http404"
  using assms
  by (auto simp add: payment_response_def split: prod.splits response.splits)

section \<open>The payment callback\<close>

text \<open>
  Claim C9. Let the callback report a successful payment for the beat \<open>k\<close> of the
  session, and let the buyer have a profile. \<open>beat_id_global\<close> is 0. With \<open>k = 0\<close> the
  view takes the session for invalid and delivers nothing. Otherwise
  \<open>beat_id_global\<close> differs from \<open>k\<close>, and once the completed transaction is recorded
  the database is left exactly as \<open>download_beat\<close> for \<open>beat_id_global\<close> leaves it. So
  the client never receives a file, the download count of the beat paid for does not
  move, and a history row, if one is written at all, is a row of beat 0; when no beat
  has key 0 the answer is "not found" and no history row is written.
\<close>

theorem payment_response_delivers_beat_id_global:
  assumes "session_current_beat_id req = Some k" and "beats d k = Some b" and "pk b = k"
    and "GET_status req = Some ''successful''" and "buyer_profile req = Some u"
    and "case beats d 0 of None \<Rightarrow> True | Some b0 \<Rightarrow> pk b0 = 0"
  shows "beat_id_global = 0 \<and>
    (k = 0 \<longrightarrow> payment_response pol exists now req d =
       (HttpResponseRedirect Index ''Invalid payment session. Please try again.'', Some 0, d)) \<and>
    (k \<noteq> 0 \<longrightarrow> beat_id_global \<noteq> k \<and>
       (\<exists>tx d1. Transaction_objects_create now u b (price b) Completed d = Inr (tx, d1) \<and>
          snd (snd (payment_response pol exists now req d))
            = snd (download_beat pol exists now req beat_id_global d1)) \<and>
       (\<forall>path name. fst (payment_response pol exists now req d) \<noteq> FileResponse path name) \<and>
       map_option download_count (beats (snd (snd (payment_response pol exists now req d))) k)
         = Some (download_count b) \<and>
       (histories (snd (snd (payment_response pol exists now req d))) = histories d \<or>
        histories (snd (snd (payment_response pol exists now req d)))
          = histories d @ [\<lparr>h_beat = 0, h_buyer = u, downloaded_at = now\<rparr>]) \<and>
       (beats d 0 = None \<longrightarrow>
          fst (payment_response pol exists now req d) = Http404 \<and>
          histories (snd (snd (payment_response pol exists now req d))) = histories d))"
proof (intro conjI impI)
  show "beat_id_global = 0" by (simp add: beat_id_global_def)
next
  assume "k = 0"
  with assms(1) show "payment_response pol exists now req d =
       (HttpResponseRedirect Index ''Invalid payment session. Please try again.'', Some 0, d)"
    by (simp add: payment_response_def)
next
  assume "k \<noteq> 0"
  then show "beat_id_global \<noteq> k" by (simp add: beat_id_global_def)
next
  assume k: "k \<noteq> 0"
  from Transaction_objects_create_completed [of now u b "price b" d]
  obtain tx d1 where c: "Transaction_objects_create now u b (price b) Completed d = Inr (tx, d1)"
    by blast
  from payment_response_successful(1) [where exists = exists,
      OF assms(1) k assms(2) assms(4) assms(5) c] c
  show "\<exists>tx d1. Transaction_objects_create now u b (price b) Completed d = Inr (tx, d1) \<and>
          snd (snd (payment_response pol exists now req d))
            = snd (download_beat pol exists now req beat_id_global d1)"
    by blast
next
  assume k: "k \<noteq> 0"
  from Transaction_objects_create_completed [of now u b "price b" d]
  obtain tx d1 where c: "Transaction_objects_create now u b (price b) Completed d = Inr (tx, d1)"
    by blast
  from payment_response_successful(2) [where exists = exists,
      OF assms(1) k assms(2) assms(4) assms(5) c]
  show "\<forall>path name. fst (payment_response pol exists now req d) \<noteq> FileResponse path name"
    by blast
next
  assume k: "k \<noteq> 0"
  from Transaction_objects_create_completed [of now u b "price b" d]
  obtain tx d1 where c: "Transaction_objects_create now u b (price b) Completed d = Inr (tx, d1)"
    and bs: "beats d1 = (beats d)(pk b \<mapsto> b\<lparr>status := Sold, reserved_until := None\<rparr>)"
    by blast
  have wf: "\<And>b0. beats d1 beat_id_global = Some b0 \<Longrightarrow> pk b0 = beat_id_global"
    using assms(3,6) k bs by (simp add: beat_id_global_def split: option.splits)
  have fin: "snd (snd (payment_response pol exists now req d))
            = snd (download_beat pol exists now req beat_id_global d1)"
    by (rule payment_response_successful(1) [where exists = exists,
      OF assms(1) k assms(2) assms(4) assms(5) c])
  have "beats (snd (download_beat pol exists now req beat_id_global d1)) k = beats d1 k"
    using wf k by (intro download_beat_effect(2)) (simp_all add: beat_id_global_def)
  with fin bs assms(3)
  show "map_option download_count (beats (snd (snd (payment_response pol exists now req d))) k)
         = Some (download_count b)"
    by simp
next
  assume k: "k \<noteq> 0"
  from Transaction_objects_create_completed [of now u b "price b" d]
  obtain tx d1 where c: "Transaction_objects_create now u b (price b) Completed d = Inr (tx, d1)"
    and bs: "beats d1 = (beats d)(pk b \<mapsto> b\<lparr>status := Sold, reserved_until := None\<rparr>)"
    and hs: "histories d1 = histories d"
    by blast
  have wf: "\<And>b0. beats d1 beat_id_global = Some b0 \<Longrightarrow> pk b0 = beat_id_global"
    using assms(3,6) k bs by (simp add: beat_id_global_def split: option.splits)
  have fin: "snd (snd (payment_response pol exists now req d))
            = snd (download_beat pol exists now req beat_id_global d1)"
    by (rule payment_response_successful(1) [where exists = exists,
      OF assms(1) k assms(2) assms(4) assms(5) c])
  have "histories (snd (download_beat pol exists now req beat_id_global d1)) = histories d1 \<or>
         (\<exists>u. buyer_profile req = Some u \<and>
            histories (snd (download_beat pol exists now req beat_id_global d1))
              = histories d1 @ [\<lparr>h_beat = beat_id_global, h_buyer = u, downloaded_at = now\<rparr>])"
    using wf by (rule download_beat_effect(3))
  with fin hs assms(5)
  show "histories (snd (snd (payment_response pol exists now req d))) = histories d \<or>
        histories (snd (snd (payment_response pol exists now req d)))
          = histories d @ [\<lparr>h_beat = 0, h_buyer = u, downloaded_at = now\<rparr>]"
    by (auto simp add: beat_id_global_def)
next
  assume k: "k \<noteq> 0" and none: "beats d 0 = None"
  from Transaction_objects_create_completed [of now u b "price b" d]
  obtain tx d1 where c: "Transaction_objects_create now u b (price b) Completed d = Inr (tx, d1)"
    and bs: "beats d1 = (beats d)(pk b \<mapsto> b\<lparr>status := Sold, reserved_until := None\<rparr>)"
    and hs: "histories d1 = histories d"
    by blast
  have "beats d1 beat_id_global = None"
    using none bs assms(3) k by (simp add: beat_id_global_def)
  then have nf: "download_beat pol exists now req beat_id_global d1 = (Http404, d1)"
    by (rule download_beat_not_found)
  note pr = payment_response_successful [where exists = exists and pol = pol,
      OF assms(1) k assms(2) assms(4) assms(5) c]
  from pr(3) nf show "fst (payment_response pol exists now req d) = Http404" by simp
  from pr(1) nf hs
  show "histories (snd (snd (payment_response pol exists now req d))) = histories d" by simp
qed

theorem payment_response_delivers_beat_id_global_witness:
  "beat_id_global \<noteq> 1 \<and>
   fst (payment_response RejectUnknown stored 9 successful_request example_db) = Http404 \<and>
   histories (snd (snd (payment_response RejectUnknown stored 9 successful_request example_db)))
     = [] \<and>
   map_option download_count
     (beats (snd (snd (payment_response RejectUnknown stored 9 successful_request example_db))) 1)
     = Some 0"
proof -
  have 1: "session_current_beat_id successful_request = Some 1"
    and 4: "GET_status successful_request = Some ''successful''"
    and 5: "buyer_profile successful_request = Some 7"
    by (simp_all add: successful_request_def)
  have 2: "beats example_db 1 = Some example_beat" by (simp add: example_db_def)
  have 3: "pk example_beat = 1" by (simp add: example_beat_def)
  have 6: "case beats example_db 0 of None \<Rightarrow> True | Some b0 \<Rightarrow> pk b0 = 0"
    by (simp add: example_db_def)
  have 7: "beats example_db 0 = None" "histories example_db = []"
    "download_count example_beat = 0"
    by (simp_all add: example_db_def example_beat_def)
  from payment_response_delivers_beat_id_global [where exists = stored and now = 9
      and pol = RejectUnknown, OF 1 2 3 4 5 6] 7
  show ?thesis by simp
qed

text \<open>
  Claim C8, as stated, fails. The beat of the session is reserved and the buyer's
  transaction is pending. A callback with status cancelled, and one with status failed,
  only redirect to the album page: the database is returned as it was, its only
  transaction still pending, so no transition to cancelled or failed is recorded.
\<close>

theorem payment_response_cancelled_counterexample:
  "payment_response RejectUnknown stored 9 cancelled_request pending_db
     = (HttpResponseRedirect (Detail 1) ''Payment was cancelled. Please try again.'', None,
        pending_db) \<and>
   payment_response RejectUnknown stored 9 failed_request pending_db
     = (HttpResponseRedirect (Detail 1) ''Payment failed. Please try again.'', None,
        pending_db) \<and>
   map t_status (transactions pending_db) = [Pending]"
  by (simp add: payment_response_def cancelled_request_def failed_request_def
        successful_request_def pending_db_def pending_transaction_def example_beat_def)

text \<open>
  Claim C8, amended. Let the session name a beat \<open>k\<close> that exists. On status
  successful, for a buyer with a profile, the ledger gains exactly one transaction, of
  this buyer and beat, with the price of the beat as amount, in status completed and
  completed now, and the beat is stored sold with \<open>reserved_until\<close> cleared. On status
  cancelled, and on any other status, the view records nothing: it redirects to the
  album of the beat with a message and leaves the database as it is.
\<close>

theorem payment_response_ledger:
  assumes "session_current_beat_id req = Some k" and "k \<noteq> 0" and "beats d k = Some b"
    and "pk b = k" and "case beats d 0 of None \<Rightarrow> True | Some b0 \<Rightarrow> pk b0 = 0"
  shows
    "(GET_status req = Some ''successful'' \<and> buyer_profile req = Some u \<longrightarrow>
        transactions (snd (snd (payment_response pol exists now req d)))
          = transactions d @
            [\<lparr>t_pk = Some (fresh_pk (transactions d)), t_buyer = u, t_beat_id = k, t_beat = None,
              t_amount = price b, t_status = Completed, t_payment_method = [],
              t_payment_reference = [], t_completed_at = Some now\<rparr>] \<and>
        beats (snd (snd (payment_response pol exists now req d))) k
          = Some (b\<lparr>status := Sold, reserved_until := None\<rparr>)) \<and>
     (GET_status req = Some ''cancelled'' \<longrightarrow>
        payment_response pol exists now req d
          = (HttpResponseRedirect (Detail (album b)) ''Payment was cancelled. Please try again.'',
             None, d)) \<and>
     (GET_status req \<noteq> Some ''successful'' \<and> GET_status req \<noteq> Some ''cancelled'' \<longrightarrow>
        payment_response pol exists now req d
          = (HttpResponseRedirect (Detail (album b)) ''Payment failed. Please try again.'',
             None, d))"
proof (intro conjI impI)
  assume "GET_status req = Some ''cancelled''"
  with assms(1,2,3) show "payment_response pol exists now req d
          = (HttpResponseRedirect (Detail (album b)) ''Payment was cancelled. Please try again.'',
             None, d)"
    by (simp add: payment_response_def)
next
  assume "GET_status req \<noteq> Some ''successful'' \<and> GET_status req \<noteq> Some ''cancelled''"
  with assms(1,2,3) show "payment_response pol exists now req d
          = (HttpResponseRedirect (Detail (album b)) ''Payment failed. Please try again.'',
             None, d)"
    by (simp add: payment_response_def)
next
  assume s: "GET_status req = Some ''successful'' \<and> buyer_profile req = Some u"
  from Transaction_objects_create_completed [of now u b "price b" d]
  obtain tx d1 where c: "Transaction_objects_create now u b (price b) Completed d = Inr (tx, d1)"
    and bs: "beats d1 = (beats d)(pk b \<mapsto> b\<lparr>status := Sold, reserved_until := None\<rparr>)"
    and ts: "transactions d1 = transactions d @
       [\<lparr>t_pk = Some (fresh_pk (transactions d)), t_buyer = u, t_beat_id = pk b, t_beat = None,
         t_amount = price b, t_status = Completed, t_payment_method = [],
         t_payment_reference = [], t_completed_at = Some now\<rparr>]"
    by blast
  have wf: "\<And>b0. beats d1 beat_id_global = Some b0 \<Longrightarrow> pk b0 = beat_id_global"
    using assms(2,4,5) bs by (simp add: beat_id_global_def split: option.splits)
  have fin: "snd (snd (payment_response pol exists now req d))
            = snd (download_beat pol exists now req beat_id_global d1)"
    using s by (intro payment_response_successful(1) [where exists = exists,
      OF assms(1) assms(2) assms(3) _ _ c]) simp_all
  have "transactions (snd (download_beat pol exists now req beat_id_global d1)) = transactions d1"
    using wf by (rule download_beat_effect(1))
  with fin ts assms(4)
  show "transactions (snd (snd (payment_response pol exists now req d)))
          = transactions d @
            [\<lparr>t_pk = Some (fresh_pk (transactions d)), t_buyer = u, t_beat_id = k, t_beat = None,
              t_amount = price b, t_status = Completed, t_payment_method = [],
              t_payment_reference = [], t_completed_at = Some now\<rparr>]"
    by simp
  have "beats (snd (download_beat pol exists now req beat_id_global d1)) k = beats d1 k"
    using wf assms(2) by (intro download_beat_effect(2)) (simp_all add: beat_id_global_def)
  with fin bs assms(4)
  show "beats (snd (snd (payment_response pol exists now req d))) k
          = Some (b\<lparr>status := Sold, reserved_until := None\<rparr>)"
    by simp
qed

theorem payment_response_ledger_witness:
  "map t_status (transactions
      (snd (snd (payment_response RejectUnknown stored 9 successful_request pending_db))))
     = [Pending, Completed] \<and>
   map_option status
     (beats (snd (snd (payment_response RejectUnknown stored 9 successful_request pending_db))) 1)
     = Some Sold \<and>
   snd (snd (payment_response RejectUnknown stored 9 cancelled_request pending_db)) = pending_db \<and>
   snd (snd (payment_response RejectUnknown stored 9 failed_request pending_db)) = pending_db"
proof -
  let ?b = "example_beat\<lparr>status := Reserved, reserved_until := Some 300000000\<rparr>"
  have 1: "session_current_beat_id successful_request = Some 1"
    "session_current_beat_id cancelled_request = Some 1"
    "session_current_beat_id failed_request = Some 1"
    by (simp_all add: successful_request_def cancelled_request_def failed_request_def)
  have 2: "(1::nat) \<noteq> 0" by simp
  have 3: "beats pending_db 1 = Some ?b" by (simp add: pending_db_def)
  have 4: "pk ?b = 1" by (simp add: example_beat_def)
  have 5: "case beats pending_db 0 of None \<Rightarrow> True | Some b0 \<Rightarrow> pk b0 = 0"
    by (simp add: pending_db_def)
  have 6: "GET_status successful_request = Some ''successful''"
    "buyer_profile successful_request = Some 7"
    "GET_status cancelled_request = Some ''cancelled''"
    "GET_status failed_request \<noteq> Some ''successful''"
    "GET_status failed_request \<noteq> Some ''cancelled''"
    by (simp_all add: successful_request_def cancelled_request_def failed_request_def)
  have 7: "map t_status (transactions pending_db) = [Pending]"
    by (simp add: pending_db_def pending_transaction_def)
  from payment_response_ledger [where exists = stored and now = 9 and pol = RejectUnknown
      and u = 7, OF 1(1) 2 3 4 5]
    payment_response_ledger [where exists = stored and now = 9 and pol = RejectUnknown
      and u = 7, OF 1(2) 2 3 4 5]
    payment_response_ledger [where exists = stored and now = 9 and pol = RejectUnknown
      and u = 7, OF 1(3) 2 3 4 5]
    6 7
  show ?thesis by simp
qed

end
